theory Spec2Isabelle
  imports Complex_Main
begin

section \<open>Values, errors and the numpy operations of transform.py\<close>

text \<open>
  Coordinates are numpy float64 values, read here as real numbers. A point is a row
  \<open>(x, y, z)\<close>, a rotation matrix is three rows.
\<close>

type_synonym vec3 = "real \<times> real \<times> real"

type_synonym mat3 = "vec3 \<times> vec3 \<times> vec3"

text \<open>
  The exceptions that can leave the functions of transform.py. \<open>EmptySelection\<close> is the
  error the specification asks for on a selection without rows; no function of the module
  raises it. \<open>ContractViolation\<close> is raised by the coordinate accessor only.
\<close>

datatype error =
    NameError string
  | ValueError string
  | TypeError string
  | EmptySelection
  | ContractViolation

text \<open>
  The array \<open>np.array(rows)\<close> of a list of coordinate rows. For at least one row it has
  shape \<open>(n, 3)\<close>; \<open>np.array([])\<close> has shape \<open>(0,)\<close>, one axis of length zero, which is
  \<open>Flat0\<close>. \<open>Rows []\<close> is an empty array of shape \<open>(0, 3)\<close>.
\<close>

datatype ndarray = Flat0 | Rows "vec3 list"

text \<open>The transposed array: shape \<open>(3, n)\<close>, three rows of length n; the transpose of
  a one-axis array is the array itself.\<close>

datatype ndarrayT = FlatT0 | Cols "real list" "real list" "real list"

definition np_array :: "vec3 list \<Rightarrow> ndarray" where
  "np_array rows = (if rows = [] then Flat0 else Rows rows)"

definition vadd :: "vec3 \<Rightarrow> vec3 \<Rightarrow> vec3" where
  "vadd p q = (case p of (px, py, pz) \<Rightarrow> case q of (qx, qy, qz) \<Rightarrow> (px + qx, py + qy, pz + qz))"

definition vsub :: "vec3 \<Rightarrow> vec3 \<Rightarrow> vec3" where
  "vsub p q = (case p of (px, py, pz) \<Rightarrow> case q of (qx, qy, qz) \<Rightarrow> (px - qx, py - qy, pz - qz))"

text \<open>
  \<open>np.mean(xyz, 0)\<close>: the mean of every column. Of an array without rows it is nan (with
  a RuntimeWarning, no exception): \<open>None\<close>.
\<close>

definition np_mean0 :: "ndarray \<Rightarrow> vec3 option" where
  "np_mean0 xyz =
     (case xyz of
        Flat0 \<Rightarrow> None
      | Rows ps \<Rightarrow>
          if ps = [] then None
          else Some (sum_list (map fst ps) / real (length ps),
                     sum_list (map (fst \<circ> snd) ps) / real (length ps),
                     sum_list (map (snd \<circ> snd) ps) / real (length ps)))"

text \<open>
  \<open>np.mean(xyz)\<close> without an axis: the mean of all the entries of the array, one number.
\<close>

definition np_mean :: "ndarray \<Rightarrow> real option" where
  "np_mean xyz =
     (case xyz of
        Flat0 \<Rightarrow> None
      | Rows ps \<Rightarrow>
          if ps = [] then None
          else Some (sum_list (map (\<lambda>(x, y, z). x + y + z) ps) / real (3 * length ps)))"

text \<open>
  \<open>xyz - center\<close> and \<open>xyz + center\<close>, the centre broadcast over the rows. A nan centre
  (\<open>None\<close>) comes from an array without rows only, where there is no row to change. A
  centre of shape \<open>(3,)\<close> does not broadcast against shape \<open>(0,)\<close>.
\<close>

definition np_sub :: "ndarray \<Rightarrow> vec3 option \<Rightarrow> error + ndarray" where
  "np_sub xyz center =
     (case xyz of
        Flat0 \<Rightarrow>
          (case center of
             None \<Rightarrow> Inr Flat0
           | Some c \<Rightarrow> Inl (ValueError ''operands could not be broadcast together with shapes (0,) (3,)''))
      | Rows ps \<Rightarrow>
          (case center of
             None \<Rightarrow> Inr (Rows [])
           | Some c \<Rightarrow> Inr (Rows (map (\<lambda>p. vsub p c) ps))))"

definition np_add :: "ndarray \<Rightarrow> vec3 option \<Rightarrow> error + ndarray" where
  "np_add xyz center =
     (case xyz of
        Flat0 \<Rightarrow>
          (case center of
             None \<Rightarrow> Inr Flat0
           | Some c \<Rightarrow> Inl (ValueError ''operands could not be broadcast together with shapes (0,) (3,)''))
      | Rows ps \<Rightarrow>
          (case center of
             None \<Rightarrow> Inr (Rows [])
           | Some c \<Rightarrow> Inr (Rows (map (\<lambda>p. vadd p c) ps))))"

text \<open>The same with a single number broadcast over every entry.\<close>

definition np_sub_scalar :: "ndarray \<Rightarrow> real option \<Rightarrow> ndarray" where
  "np_sub_scalar xyz m =
     (case xyz of
        Flat0 \<Rightarrow> Flat0
      | Rows ps \<Rightarrow>
          (case m of None \<Rightarrow> Rows [] | Some c \<Rightarrow> Rows (map (\<lambda>p. vsub p (c, c, c)) ps)))"

definition np_add_scalar :: "ndarray \<Rightarrow> real option \<Rightarrow> ndarray" where
  "np_add_scalar xyz m =
     (case xyz of
        Flat0 \<Rightarrow> Flat0
      | Rows ps \<Rightarrow>
          (case m of None \<Rightarrow> Rows [] | Some c \<Rightarrow> Rows (map (\<lambda>p. vadd p (c, c, c)) ps)))"

text \<open>\<open>xyz.T\<close> for an array of rows, and \<open>.T\<close> back on the product.\<close>

definition np_T :: "ndarray \<Rightarrow> ndarrayT" where
  "np_T xyz =
     (case xyz of
        Flat0 \<Rightarrow> FlatT0
      | Rows ps \<Rightarrow> Cols (map fst ps) (map (fst \<circ> snd) ps) (map (snd \<circ> snd) ps))"

definition np_T_back :: "ndarrayT \<Rightarrow> ndarray" where
  "np_T_back a =
     (case a of
        FlatT0 \<Rightarrow> Flat0
      | Cols xs ys zs \<Rightarrow> Rows (zip xs (zip ys zs)))"

text \<open>
  \<open>np.dot(m, a)\<close> of a 3x3 matrix and a transposed array: entry \<open>(k, j)\<close> is the product of
  row k of the matrix and column j of the array. Against the shape \<open>(0,)\<close> the shapes are
  not aligned and numpy raises ValueError.
\<close>

definition dot_row :: "vec3 \<Rightarrow> real list \<Rightarrow> real list \<Rightarrow> real list \<Rightarrow> real list" where
  "dot_row r xs ys zs =
     (case r of (a, b, c) \<Rightarrow> map (\<lambda>(x, y, z). a * x + b * y + c * z) (zip xs (zip ys zs)))"

definition np_dot :: "mat3 \<Rightarrow> ndarrayT \<Rightarrow> error + ndarrayT" where
  "np_dot m a =
     (case a of
        FlatT0 \<Rightarrow> Inl (ValueError ''shapes (3,3) and (0,) not aligned: 3 (dim 1) != 0 (dim 0)'')
      | Cols xs ys zs \<Rightarrow>
          (case m of (r0, r1, r2) \<Rightarrow>
             Inr (Cols (dot_row r0 xs ys zs) (dot_row r1 xs ys zs) (dot_row r2 xs ys zs))))"

text \<open>\<open>np.dot\<close> of two 3x3 matrices.\<close>

definition mat_col :: "mat3 \<Rightarrow> nat \<Rightarrow> vec3" where
  "mat_col m j =
     (case m of ((a0, a1, a2), (b0, b1, b2), (c0, c1, c2)) \<Rightarrow>
        if j = 0 then (a0, b0, c0) else if j = 1 then (a1, b1, c1) else (a2, b2, c2))"

definition vdot :: "vec3 \<Rightarrow> vec3 \<Rightarrow> real" where
  "vdot p q = (case p of (px, py, pz) \<Rightarrow> case q of (qx, qy, qz) \<Rightarrow> px * qx + py * qy + pz * qz)"

definition np_dot33 :: "mat3 \<Rightarrow> mat3 \<Rightarrow> mat3" where
  "np_dot33 m n =
     (case m of (r0, r1, r2) \<Rightarrow>
        ((vdot r0 (mat_col n 0), vdot r0 (mat_col n 1), vdot r0 (mat_col n 2)),
         (vdot r1 (mat_col n 0), vdot r1 (mat_col n 1), vdot r1 (mat_col n 2)),
         (vdot r2 (mat_col n 0), vdot r2 (mat_col n 1), vdot r2 (mat_col n 2))))"

text \<open>
  \<open>np.dot(m, a.T).T\<close>, the expression every rotation kernel applies to the centred array.
\<close>

definition dot_T :: "mat3 \<Rightarrow> ndarray \<Rightarrow> error + ndarray" where
  "dot_T m xyz =
     (case np_dot m (np_T xyz) of
        Inl e \<Rightarrow> Inl e
      | Inr a \<Rightarrow> Inr (np_T_back a))"


section \<open>The rotation kernels\<close>

text \<open>
  \<open>rot_xyz_around_axis(xyz, axis, angle, center=None)\<close>. The centre is \<open>None\<close> when the
  caller gives none (Python's \<open>None\<close>) and is then the mean over axis 0.
\<close>

definition rodrigues :: "vec3 \<Rightarrow> real \<Rightarrow> mat3" where
  "rodrigues axis angle =
     (let ct = cos angle; st = sin angle in
      case axis of (ux, uy, uz) \<Rightarrow>
        ((ct + ux\<^sup>2 * (1 - ct), ux * uy * (1 - ct) - uz * st, ux * uz * (1 - ct) + uy * st),
         (uy * ux * (1 - ct) + uz * st, ct + uy\<^sup>2 * (1 - ct), uy * uz * (1 - ct) - ux * st),
         (uz * ux * (1 - ct) - uy * st, uz * uy * (1 - ct) + ux * st, ct + uz\<^sup>2 * (1 - ct))))"

definition rot_xyz_around_axis :: "ndarray \<Rightarrow> vec3 \<Rightarrow> real \<Rightarrow> vec3 option \<Rightarrow> error + ndarray" where
  "rot_xyz_around_axis xyz axis angle center =
     (let center = (case center of None \<Rightarrow> np_mean0 xyz | Some c \<Rightarrow> Some c);
          rot_mat = rodrigues axis angle
      in case np_sub xyz center of
           Inl e \<Rightarrow> Inl e
         | Inr d \<Rightarrow>
             (case dot_T rot_mat d of
                Inl e \<Rightarrow> Inl e
              | Inr r \<Rightarrow> np_add r center))"

text \<open>\<open>_rotation_euler(xyz, alpha, beta, gamma)\<close>.\<close>

definition euler_rx :: "real \<Rightarrow> mat3" where
  "euler_rx alpha = (let ca = cos alpha; sa = sin alpha in ((1, 0, 0), (0, ca, - sa), (0, sa, ca)))"

definition euler_ry :: "real \<Rightarrow> mat3" where
  "euler_ry beta = (let cb = cos beta; sb = sin beta in ((cb, 0, sb), (0, 1, 0), (- sb, 0, cb)))"

definition euler_rz :: "real \<Rightarrow> mat3" where
  "euler_rz gamma = (let cg = cos gamma; sg = sin gamma in ((cg, - sg, 0), (sg, cg, 0), (0, 0, 1)))"

definition rotation_euler :: "ndarray \<Rightarrow> real \<Rightarrow> real \<Rightarrow> real \<Rightarrow> error + ndarray" where
  "rotation_euler xyz alpha beta gamma =
     (let xyz0 = np_mean0 xyz;
          rx = euler_rx alpha; ry = euler_ry beta; rz = euler_rz gamma;
          rot_mat = np_dot33 rz (np_dot33 ry rx)
      in case np_sub xyz xyz0 of
           Inl e \<Rightarrow> Inl e
         | Inr d \<Rightarrow>
             (case dot_T rot_mat d of
                Inl e \<Rightarrow> Inl e
              | Inr r \<Rightarrow> np_add r xyz0))"

text \<open>
  \<open>rotation_matrix(xyz, rot_mat, center=True)\<close>: with a true \<open>center\<close> the array is centred
  on \<open>np.mean(xyz)\<close>, the mean of all its entries.
\<close>

definition rotation_matrix :: "ndarray \<Rightarrow> mat3 \<Rightarrow> bool \<Rightarrow> error + ndarray" where
  "rotation_matrix xyz rot_mat center =
     (if center then
        (let xyz0 = np_mean xyz in
         case dot_T rot_mat (np_sub_scalar xyz xyz0) of
           Inl e \<Rightarrow> Inl e
         | Inr r \<Rightarrow> Inr (np_add_scalar r xyz0))
      else dot_T rot_mat xyz)"


section \<open>Module names\<close>

text \<open>
  A name that a function body reads without assigning it is looked up among the names
  bound at module level when the line runs: the imports and the functions defined with
  \<open>def\<close>. A name bound nowhere raises NameError. Of the functions, only
  \<open>rotation_matrix\<close> takes an array and a matrix; called with these two arguments its
  \<open>center\<close> keeps the default \<open>True\<close>.
\<close>

datatype pyval =
    PyModule
  | PyClass
  | PyFunction
  | PyKernel "ndarray \<Rightarrow> mat3 \<Rightarrow> error + ndarray"

definition module_globals :: "(string \<times> pyval) list" where
  "module_globals =
     [(''np'', PyModule), (''time'', PyFunction), (''pdb2sql'', PyClass),
      (''get_rot_axis_angle'', PyFunction), (''translation'', PyFunction),
      (''rot_axis'', PyFunction), (''rot_euler'', PyFunction), (''rot_mat'', PyFunction),
      (''rot_xyz_around_axis'', PyFunction), (''_rotation_euler'', PyFunction),
      (''rotation_matrix'', PyKernel (\<lambda>xyz m. rotation_matrix xyz m True)),
      (''_get_xyz'', PyFunction), (''_update'', PyFunction)]"

definition load_global :: "string \<Rightarrow> error + pyval" where
  "load_global n =
     (case map_of module_globals n of
        None \<Rightarrow> Inl (NameError n)
      | Some v \<Rightarrow> Inr v)"

definition py_call :: "pyval \<Rightarrow> ndarray \<Rightarrow> mat3 \<Rightarrow> error + ndarray" where
  "py_call f xyz m =
     (case f of
        PyKernel k \<Rightarrow> k xyz m
      | _ \<Rightarrow> Inl (TypeError ''not callable with an array and a matrix''))"


section \<open>The rotation sampler\<close>

text \<open>
  numpy's global generator: \<open>np.random.seed\<close> replaces its state, \<open>np.random.rand()\<close>
  returns a number of \<open>[0, 1)\<close> and advances the state. The generator itself is numpy's
  and is a parameter here. \<open>np.random.seed\<close> accepts the integers of \<open>[0, 2**32)\<close> and
  raises ValueError on any other.
\<close>

record 'g np_random =
  seed_state :: "int \<Rightarrow> 'g"
  rand :: "'g \<Rightarrow> real \<times> 'g"

definition np_random_seed :: "'g np_random \<Rightarrow> int \<Rightarrow> error + 'g" where
  "np_random_seed R s =
     (if 0 \<le> s \<and> s < 2 ^ 32 then Inr (seed_state R s)
      else Inl (ValueError ''Seed must be between 0 and 2**32 - 1''))"

text \<open>
  \<open>get_rot_axis_angle(seed=None)\<close>, with the generator's state passed in and returned.
  The body assigns \<open>u1, u2, teta, phi, axis\<close> and returns \<open>axis, angle\<close>; it never assigns
  \<open>angle\<close>, which is therefore read as a module-level name.
\<close>

definition get_rot_axis_angle ::
  "'g np_random \<Rightarrow> int option \<Rightarrow> 'g \<Rightarrow> (error + vec3 \<times> pyval) \<times> 'g" where
  "get_rot_axis_angle R seed g0 =
     (case (case seed of None \<Rightarrow> Inr g0 | Some s \<Rightarrow> np_random_seed R s) of
        Inl e \<Rightarrow> (Inl e, g0)
      | Inr g1 \<Rightarrow>
          (case rand R g1 of (u1, g2) \<Rightarrow>
           case rand R g2 of (u2, g3) \<Rightarrow>
             (let teta = arccos (2 * u1 - 1); phi = 2 * pi * u2;
                  axis = (sin teta * cos phi, sin teta * sin phi, cos teta)
              in case load_global ''angle'' of
                   Inl e \<Rightarrow> (Inl e, g3)
                 | Inr angle \<Rightarrow> (Inr (axis, angle), g3))))"


section \<open>Transforms on a database\<close>

text \<open>
  The database object \<open>db\<close> is used through \<open>db.get('x,y,z', **kwargs)\<close> and
  \<open>db.update('x,y,z', xyz, **kwargs)\<close> only. The keyword arguments are the selection and
  are passed on unchanged. The class is defined outside transform.py; the two methods are
  parameters here.
\<close>

record ('db, 'sel) accessor =
  db_get :: "'db \<Rightarrow> 'sel \<Rightarrow> vec3 list"
  db_update :: "'db \<Rightarrow> ndarray \<Rightarrow> 'sel \<Rightarrow> error + 'db"

definition get_xyz :: "('db, 'sel) accessor \<Rightarrow> 'db \<Rightarrow> 'sel \<Rightarrow> ndarray" where
  "get_xyz acc db sel = np_array (db_get acc db sel)"

definition update :: "('db, 'sel) accessor \<Rightarrow> 'db \<Rightarrow> ndarray \<Rightarrow> 'sel \<Rightarrow> error + 'db" where
  "update acc db xyz sel = db_update acc db xyz sel"

definition translation :: "('db, 'sel) accessor \<Rightarrow> 'db \<Rightarrow> vec3 \<Rightarrow> 'sel \<Rightarrow> error + 'db" where
  "translation acc db vect sel =
     (let xyz = get_xyz acc db sel in
      case np_add xyz (Some vect) of
        Inl e \<Rightarrow> Inl e
      | Inr xyz' \<Rightarrow> update acc db xyz' sel)"

definition rot_axis ::
  "('db, 'sel) accessor \<Rightarrow> 'db \<Rightarrow> vec3 \<Rightarrow> real \<Rightarrow> 'sel \<Rightarrow> error + 'db" where
  "rot_axis acc db axis angle sel =
     (let xyz = get_xyz acc db sel in
      case rot_xyz_around_axis xyz axis angle None of
        Inl e \<Rightarrow> Inl e
      | Inr xyz' \<Rightarrow> update acc db xyz' sel)"

definition rot_euler ::
  "('db, 'sel) accessor \<Rightarrow> 'db \<Rightarrow> real \<Rightarrow> real \<Rightarrow> real \<Rightarrow> 'sel \<Rightarrow> error + 'db" where
  "rot_euler acc db alpha beta gamma sel =
     (let xyz = get_xyz acc db sel in
      case rotation_euler xyz alpha beta gamma of
        Inl e \<Rightarrow> Inl e
      | Inr xyz' \<Rightarrow> update acc db xyz' sel)"

text \<open>
  \<open>rot_mat(db, mat, **kwargs)\<close> calls \<open>_rotation_matrix\<close>, and after the update draws a
  number from the global generator into a local \<open>angle\<close>.
\<close>

definition rot_mat ::
  "'g np_random \<Rightarrow> ('db, 'sel) accessor \<Rightarrow> 'db \<Rightarrow> mat3 \<Rightarrow> 'sel \<Rightarrow> 'g \<Rightarrow> (error + 'db) \<times> 'g" where
  "rot_mat R acc db mat sel g =
     (let xyz = get_xyz acc db sel in
      case load_global ''_rotation_matrix'' of
        Inl e \<Rightarrow> (Inl e, g)
      | Inr f \<Rightarrow>
          (case py_call f xyz mat of
             Inl e \<Rightarrow> (Inl e, g)
           | Inr xyz' \<Rightarrow>
               (case update acc db xyz' sel of
                  Inl e \<Rightarrow> (Inl e, g)
                | Inr db' \<Rightarrow>
                    (case rand R g of (u, g') \<Rightarrow>
                       (let angle = 2 * pi * u in (Inr db', g'))))))"


section \<open>An in-memory coordinate accessor\<close>

text \<open>
  Modelled from the spec: the class \<open>pdb2sql\<close> of \<open>pdb2sqlcore\<close>, whose \<open>get\<close> and
  \<open>update\<close> are not part of transform.py. The structure is a list of rows, each a key
  (the attributes a selection can test) and a position. Reading returns the positions of
  the rows that match the selection, in row order, and the empty sequence when none
  matches. Writing replaces the positions of the matching rows, row i written over row i
  read; a sequence of another length than the selection is a contract violation.
\<close>

fun write_rows :: "('k \<Rightarrow> bool) \<Rightarrow> ('k \<times> vec3) list \<Rightarrow> vec3 list \<Rightarrow> ('k \<times> vec3) list" where
  "write_rows sel [] vs = []"
| "write_rows sel ((k, p) # db) vs =
     (if sel k then
        (case vs of
           [] \<Rightarrow> (k, p) # write_rows sel db []
         | v # vs' \<Rightarrow> (k, v) # write_rows sel db vs')
      else (k, p) # write_rows sel db vs)"

definition read_coordinates :: "('k \<times> vec3) list \<Rightarrow> ('k \<Rightarrow> bool) \<Rightarrow> vec3 list" where
  "read_coordinates db sel = map snd (filter (\<lambda>r. sel (fst r)) db)"

definition array_rows :: "ndarray \<Rightarrow> vec3 list" where
  "array_rows xyz = (case xyz of Flat0 \<Rightarrow> [] | Rows ps \<Rightarrow> ps)"

definition write_coordinates ::
  "('k \<times> vec3) list \<Rightarrow> ndarray \<Rightarrow> ('k \<Rightarrow> bool) \<Rightarrow> error + ('k \<times> vec3) list" where
  "write_coordinates db xyz sel =
     (if length (array_rows xyz) = length (read_coordinates db sel)
      then Inr (write_rows sel db (array_rows xyz))
      else Inl ContractViolation)"

definition mem_accessor :: "(('k \<times> vec3) list, 'k \<Rightarrow> bool) accessor" where
  "mem_accessor = \<lparr>db_get = read_coordinates, db_update = write_coordinates\<rparr>"


section \<open>The specification's notions\<close>

text \<open>
  The centroid of a point set is the arithmetic mean of every coordinate.
\<close>

definition centroid :: "vec3 list \<Rightarrow> vec3" where
  "centroid ps =
     ((\<Sum>p\<leftarrow>ps. fst p) / real (length ps),
      (\<Sum>p\<leftarrow>ps. fst (snd p)) / real (length ps),
      (\<Sum>p\<leftarrow>ps. snd (snd p)) / real (length ps))"

text \<open>The product of a matrix and a point, and the rotation \<open>R (p - c) + c\<close> of a point
  about a centre.\<close>

definition mat_vec :: "mat3 \<Rightarrow> vec3 \<Rightarrow> vec3" where
  "mat_vec m p = (case m of (r0, r1, r2) \<Rightarrow> (vdot r0 p, vdot r1 p, vdot r2 p))"

definition rotate_about :: "mat3 \<Rightarrow> vec3 \<Rightarrow> vec3 \<Rightarrow> vec3" where
  "rotate_about m c p = vadd (mat_vec m (vsub p c)) c"

text \<open>Euclidean distance of two points, and the unit length of an axis.\<close>

definition dist3 :: "vec3 \<Rightarrow> vec3 \<Rightarrow> real" where
  "dist3 p q =
     (case p of (px, py, pz) \<Rightarrow> case q of (qx, qy, qz) \<Rightarrow>
        sqrt ((px - qx)\<^sup>2 + (py - qy)\<^sup>2 + (pz - qz)\<^sup>2))"

definition unit_axis :: "vec3 \<Rightarrow> bool" where
  "unit_axis u = (case u of (ux, uy, uz) \<Rightarrow> ux\<^sup>2 + uy\<^sup>2 + uz\<^sup>2 = 1)"

text \<open>The elemental rotations of a point about the x, y and z axes.\<close>

definition rot_x :: "real \<Rightarrow> vec3 \<Rightarrow> vec3" where
  "rot_x a p = (case p of (x, y, z) \<Rightarrow> (x, y * cos a - z * sin a, y * sin a + z * cos a))"

definition rot_y :: "real \<Rightarrow> vec3 \<Rightarrow> vec3" where
  "rot_y b p = (case p of (x, y, z) \<Rightarrow> (x * cos b + z * sin b, y, z * cos b - x * sin b))"

definition rot_z :: "real \<Rightarrow> vec3 \<Rightarrow> vec3" where
  "rot_z g p = (case p of (x, y, z) \<Rightarrow> (x * cos g - y * sin g, x * sin g + y * cos g, z))"


section \<open>The kernels on an array of rows\<close>

lemma zip3_maps: "zip (map f ps) (zip (map g ps) (map h ps)) = map (\<lambda>p. (f p, g p, h p)) ps"
  by (induction ps) auto

lemma dot_row_cols:
  "dot_row r (map fst ps) (map (fst \<circ> snd) ps) (map (snd \<circ> snd) ps) = map (vdot r) ps"
  by (induction ps) (auto simp: dot_row_def vdot_def split: prod.splits)

lemma dot_T_Rows: "dot_T m (Rows ps) = Inr (Rows (map (mat_vec m) ps))"
  by (cases m) (simp add: dot_T_def np_dot_def np_T_def np_T_back_def dot_row_cols zip3_maps mat_vec_def)

lemma dot_T_Flat0: "dot_T m Flat0 = Inl (ValueError ''shapes (3,3) and (0,) not aligned: 3 (dim 1) != 0 (dim 0)'')"
  by (simp add: dot_T_def np_dot_def np_T_def)

lemma np_mean0_Rows: "ps \<noteq> [] \<Longrightarrow> np_mean0 (Rows ps) = Some (centroid ps)"
  by (simp add: np_mean0_def centroid_def comp_def)

lemma kernel_Rows:
  "centre = Some c \<Longrightarrow>
   (case np_sub (Rows ps) centre of
      Inl e \<Rightarrow> Inl e
    | Inr d \<Rightarrow> (case dot_T m d of Inl e \<Rightarrow> Inl e | Inr r \<Rightarrow> np_add r centre))
   = Inr (Rows (map (rotate_about m c) ps))"
  by (simp add: np_sub_def np_add_def dot_T_Rows rotate_about_def comp_def)

lemma rot_xyz_around_axis_Rows:
  assumes "ps \<noteq> []"
  shows "rot_xyz_around_axis (Rows ps) axis angle center =
         Inr (Rows (map (rotate_about (rodrigues axis angle)
                       (case center of None \<Rightarrow> centroid ps | Some c \<Rightarrow> c)) ps))"
proof (cases center)
  case None
  then show ?thesis
    using assms by (simp add: rot_xyz_around_axis_def Let_def np_mean0_Rows kernel_Rows)
next
  case (Some c)
  then show ?thesis
    by (simp add: rot_xyz_around_axis_def Let_def kernel_Rows)
qed

lemma rotation_euler_Rows:
  assumes "ps \<noteq> []"
  shows "rotation_euler (Rows ps) alpha beta gamma =
         Inr (Rows (map (rotate_about (np_dot33 (euler_rz gamma) (np_dot33 (euler_ry beta) (euler_rx alpha)))
                       (centroid ps)) ps))"
  using assms by (simp add: rotation_euler_def Let_def np_mean0_Rows kernel_Rows)

lemma mat_vec_np_dot33: "mat_vec (np_dot33 m n) p = mat_vec m (mat_vec n p)"
  by (cases m; cases n; cases p)
     (auto simp: mat_vec_def np_dot33_def vdot_def mat_col_def algebra_simps)

lemma mat_vec_euler_rx: "mat_vec (euler_rx a) p = rot_x a p"
  by (cases p) (simp add: mat_vec_def euler_rx_def rot_x_def vdot_def Let_def)

lemma mat_vec_euler_ry: "mat_vec (euler_ry a) p = rot_y a p"
  by (cases p) (simp add: mat_vec_def euler_ry_def rot_y_def vdot_def Let_def)

lemma mat_vec_euler_rz: "mat_vec (euler_rz a) p = rot_z a p"
  by (cases p) (simp add: mat_vec_def euler_rz_def rot_z_def vdot_def Let_def)

lemma mat_vec_euler:
  "mat_vec (np_dot33 (euler_rz g) (np_dot33 (euler_ry b) (euler_rx a))) p = rot_z g (rot_y b (rot_x a p))"
  by (simp add: mat_vec_np_dot33 mat_vec_euler_rx mat_vec_euler_ry mat_vec_euler_rz)


section \<open>Algebra of the rotation matrices\<close>

lemma rodrigues_norm_poly:
  fixes c s ux uy uz x y z :: real
  shows "((c + ux\<^sup>2 * (1 - c)) * x + (ux * uy * (1 - c) - uz * s) * y + (ux * uz * (1 - c) + uy * s) * z)\<^sup>2
       + ((uy * ux * (1 - c) + uz * s) * x + (c + uy\<^sup>2 * (1 - c)) * y + (uy * uz * (1 - c) - ux * s) * z)\<^sup>2
       + ((uz * ux * (1 - c) - uy * s) * x + (uz * uy * (1 - c) + ux * s) * y + (c + uz\<^sup>2 * (1 - c)) * z)\<^sup>2
       = x\<^sup>2 + y\<^sup>2 + z\<^sup>2
         + (c\<^sup>2 + s\<^sup>2 - 1) * (x\<^sup>2 + y\<^sup>2 + z\<^sup>2 - (ux * x + uy * y + uz * z)\<^sup>2)
         + (ux\<^sup>2 + uy\<^sup>2 + uz\<^sup>2 - 1) * ((1 - c)\<^sup>2 * (ux * x + uy * y + uz * z)\<^sup>2 + s\<^sup>2 * (x\<^sup>2 + y\<^sup>2 + z\<^sup>2))"
  by (simp add: power2_eq_square algebra_simps)

lemma rodrigues_back_poly_x:
  fixes c s ux uy uz x y z :: real
  shows "(c + ux\<^sup>2 * (1 - c)) * ((c + ux\<^sup>2 * (1 - c)) * x + (ux * uy * (1 - c) - uz * s) * y + (ux * uz * (1 - c) + uy * s) * z)
       + (ux * uy * (1 - c) + uz * s) * ((uy * ux * (1 - c) + uz * s) * x + (c + uy\<^sup>2 * (1 - c)) * y + (uy * uz * (1 - c) - ux * s) * z)
       + (ux * uz * (1 - c) - uy * s) * ((uz * ux * (1 - c) - uy * s) * x + (uz * uy * (1 - c) + ux * s) * y + (c + uz\<^sup>2 * (1 - c)) * z)
       = x + (c\<^sup>2 + s\<^sup>2 - 1) * (x - (ux * x + uy * y + uz * z) * ux)
           + (ux\<^sup>2 + uy\<^sup>2 + uz\<^sup>2 - 1) * (s\<^sup>2 * x + (1 - c)\<^sup>2 * (ux * x + uy * y + uz * z) * ux)"
  by (simp add: power2_eq_square algebra_simps)

lemma rodrigues_back_poly_y:
  fixes c s ux uy uz x y z :: real
  shows "(uy * ux * (1 - c) - uz * s) * ((c + ux\<^sup>2 * (1 - c)) * x + (ux * uy * (1 - c) - uz * s) * y + (ux * uz * (1 - c) + uy * s) * z)
       + (c + uy\<^sup>2 * (1 - c)) * ((uy * ux * (1 - c) + uz * s) * x + (c + uy\<^sup>2 * (1 - c)) * y + (uy * uz * (1 - c) - ux * s) * z)
       + (uy * uz * (1 - c) + ux * s) * ((uz * ux * (1 - c) - uy * s) * x + (uz * uy * (1 - c) + ux * s) * y + (c + uz\<^sup>2 * (1 - c)) * z)
       = y + (c\<^sup>2 + s\<^sup>2 - 1) * (y - (ux * x + uy * y + uz * z) * uy)
           + (ux\<^sup>2 + uy\<^sup>2 + uz\<^sup>2 - 1) * (s\<^sup>2 * y + (1 - c)\<^sup>2 * (ux * x + uy * y + uz * z) * uy)"
  by (simp add: power2_eq_square algebra_simps)

lemma rodrigues_back_poly_z:
  fixes c s ux uy uz x y z :: real
  shows "(uz * ux * (1 - c) + uy * s) * ((c + ux\<^sup>2 * (1 - c)) * x + (ux * uy * (1 - c) - uz * s) * y + (ux * uz * (1 - c) + uy * s) * z)
       + (uz * uy * (1 - c) - ux * s) * ((uy * ux * (1 - c) + uz * s) * x + (c + uy\<^sup>2 * (1 - c)) * y + (uy * uz * (1 - c) - ux * s) * z)
       + (c + uz\<^sup>2 * (1 - c)) * ((uz * ux * (1 - c) - uy * s) * x + (uz * uy * (1 - c) + ux * s) * y + (c + uz\<^sup>2 * (1 - c)) * z)
       = z + (c\<^sup>2 + s\<^sup>2 - 1) * (z - (ux * x + uy * y + uz * z) * uz)
           + (ux\<^sup>2 + uy\<^sup>2 + uz\<^sup>2 - 1) * (s\<^sup>2 * z + (1 - c)\<^sup>2 * (ux * x + uy * y + uz * z) * uz)"
  by (simp add: power2_eq_square algebra_simps)

lemma sum_rotate_about:
  "(\<Sum>p\<leftarrow>ps. fst (rotate_about ((a0, a1, a2), (b0, b1, b2), (c0, c1, c2)) (cx, cy, cz) p)) =
      a0 * ((\<Sum>p\<leftarrow>ps. fst p) - real (length ps) * cx)
    + a1 * ((\<Sum>p\<leftarrow>ps. fst (snd p)) - real (length ps) * cy)
    + a2 * ((\<Sum>p\<leftarrow>ps. snd (snd p)) - real (length ps) * cz) + real (length ps) * cx"
  "(\<Sum>p\<leftarrow>ps. fst (snd (rotate_about ((a0, a1, a2), (b0, b1, b2), (c0, c1, c2)) (cx, cy, cz) p))) =
      b0 * ((\<Sum>p\<leftarrow>ps. fst p) - real (length ps) * cx)
    + b1 * ((\<Sum>p\<leftarrow>ps. fst (snd p)) - real (length ps) * cy)
    + b2 * ((\<Sum>p\<leftarrow>ps. snd (snd p)) - real (length ps) * cz) + real (length ps) * cy"
  "(\<Sum>p\<leftarrow>ps. snd (snd (rotate_about ((a0, a1, a2), (b0, b1, b2), (c0, c1, c2)) (cx, cy, cz) p))) =
      c0 * ((\<Sum>p\<leftarrow>ps. fst p) - real (length ps) * cx)
    + c1 * ((\<Sum>p\<leftarrow>ps. fst (snd p)) - real (length ps) * cy)
    + c2 * ((\<Sum>p\<leftarrow>ps. snd (snd p)) - real (length ps) * cz) + real (length ps) * cz"
  by (induction ps)
     (auto simp: rotate_about_def mat_vec_def vdot_def vsub_def vadd_def algebra_simps)

lemma centroid_rotate_about:
  assumes "ps \<noteq> []"
  shows "centroid (map (rotate_about m (centroid ps)) ps) = centroid ps"
proof -
  obtain a0 a1 a2 b0 b1 b2 c0 c1 c2 where m: "m = ((a0, a1, a2), (b0, b1, b2), (c0, c1, c2))"
    by (metis prod_cases3)
  obtain cx cy cz where c: "centroid ps = (cx, cy, cz)"
    by (metis prod_cases3)
  have n: "real (length ps) \<noteq> 0" using assms by simp
  from c have
    "(\<Sum>p\<leftarrow>ps. fst p) - real (length ps) * cx = 0"
    "(\<Sum>p\<leftarrow>ps. fst (snd p)) - real (length ps) * cy = 0"
    "(\<Sum>p\<leftarrow>ps. snd (snd p)) - real (length ps) * cz = 0"
    using n by (auto simp: centroid_def)
  then show ?thesis
    unfolding c m
    using n by (simp add: centroid_def [of "map f ps" for f] comp_def sum_rotate_about)
qed


lemma rodrigues_norm:
  assumes "unit_axis u"
  shows "vdot (mat_vec (rodrigues u a) v) (mat_vec (rodrigues u a) v) = vdot v v"
proof -
  obtain ux uy uz where u: "u = (ux, uy, uz)" by (metis prod_cases3)
  obtain x y z where v: "v = (x, y, z)" by (metis prod_cases3)
  have un: "ux\<^sup>2 + uy\<^sup>2 + uz\<^sup>2 = 1" using assms by (simp add: unit_axis_def u)
  have cs: "(cos a)\<^sup>2 + (sin a)\<^sup>2 = 1" by (simp add: add.commute)
  have "vdot (mat_vec (rodrigues u a) v) (mat_vec (rodrigues u a) v) =
      ((cos a + ux\<^sup>2 * (1 - cos a)) * x + (ux * uy * (1 - cos a) - uz * sin a) * y + (ux * uz * (1 - cos a) + uy * sin a) * z)\<^sup>2
       + ((uy * ux * (1 - cos a) + uz * sin a) * x + (cos a + uy\<^sup>2 * (1 - cos a)) * y + (uy * uz * (1 - cos a) - ux * sin a) * z)\<^sup>2
       + ((uz * ux * (1 - cos a) - uy * sin a) * x + (uz * uy * (1 - cos a) + ux * sin a) * y + (cos a + uz\<^sup>2 * (1 - cos a)) * z)\<^sup>2"
    by (simp add: u v rodrigues_def mat_vec_def vdot_def Let_def power2_eq_square)
  also have "\<dots> = x\<^sup>2 + y\<^sup>2 + z\<^sup>2"
    unfolding rodrigues_norm_poly un cs by simp
  also have "\<dots> = vdot v v"
    by (simp add: v vdot_def power2_eq_square)
  finally show ?thesis .
qed

lemma rodrigues_back:
  assumes "unit_axis u"
  shows "mat_vec (rodrigues u (- a)) (mat_vec (rodrigues u a) v) = v"
proof -
  obtain ux uy uz where u: "u = (ux, uy, uz)" by (metis prod_cases3)
  obtain x y z where v: "v = (x, y, z)" by (metis prod_cases3)
  have un: "ux\<^sup>2 + uy\<^sup>2 + uz\<^sup>2 = 1" using assms by (simp add: unit_axis_def u)
  have cs: "(cos a)\<^sup>2 + (sin a)\<^sup>2 = 1" by (simp add: add.commute)
  have x: "(cos a + ux\<^sup>2 * (1 - cos a)) * ((cos a + ux\<^sup>2 * (1 - cos a)) * x + (ux * uy * (1 - cos a) - uz * sin a) * y + (ux * uz * (1 - cos a) + uy * sin a) * z)
       + (ux * uy * (1 - cos a) + uz * sin a) * ((uy * ux * (1 - cos a) + uz * sin a) * x + (cos a + uy\<^sup>2 * (1 - cos a)) * y + (uy * uz * (1 - cos a) - ux * sin a) * z)
       + (ux * uz * (1 - cos a) - uy * sin a) * ((uz * ux * (1 - cos a) - uy * sin a) * x + (uz * uy * (1 - cos a) + ux * sin a) * y + (cos a + uz\<^sup>2 * (1 - cos a)) * z)
       = x"
    unfolding rodrigues_back_poly_x un cs by simp
  have y: "(uy * ux * (1 - cos a) - uz * sin a) * ((cos a + ux\<^sup>2 * (1 - cos a)) * x + (ux * uy * (1 - cos a) - uz * sin a) * y + (ux * uz * (1 - cos a) + uy * sin a) * z)
       + (cos a + uy\<^sup>2 * (1 - cos a)) * ((uy * ux * (1 - cos a) + uz * sin a) * x + (cos a + uy\<^sup>2 * (1 - cos a)) * y + (uy * uz * (1 - cos a) - ux * sin a) * z)
       + (uy * uz * (1 - cos a) + ux * sin a) * ((uz * ux * (1 - cos a) - uy * sin a) * x + (uz * uy * (1 - cos a) + ux * sin a) * y + (cos a + uz\<^sup>2 * (1 - cos a)) * z)
       = y"
    unfolding rodrigues_back_poly_y un cs by simp
  have z: "(uz * ux * (1 - cos a) + uy * sin a) * ((cos a + ux\<^sup>2 * (1 - cos a)) * x + (ux * uy * (1 - cos a) - uz * sin a) * y + (ux * uz * (1 - cos a) + uy * sin a) * z)
       + (uz * uy * (1 - cos a) - ux * sin a) * ((uy * ux * (1 - cos a) + uz * sin a) * x + (cos a + uy\<^sup>2 * (1 - cos a)) * y + (uy * uz * (1 - cos a) - ux * sin a) * z)
       + (cos a + uz\<^sup>2 * (1 - cos a)) * ((uz * ux * (1 - cos a) - uy * sin a) * x + (uz * uy * (1 - cos a) + ux * sin a) * y + (cos a + uz\<^sup>2 * (1 - cos a)) * z)
       = z"
    unfolding rodrigues_back_poly_z un cs by simp
  show ?thesis
    using x y z by (simp add: u v rodrigues_def mat_vec_def vdot_def Let_def)
qed

lemma plane_rot_norm:
  fixes c s p q :: real
  assumes "c\<^sup>2 + s\<^sup>2 = 1"
  shows "(p * c - q * s) * (p * c - q * s) + (p * s + q * c) * (p * s + q * c) = p * p + q * q"
proof -
  have "(p * c - q * s) * (p * c - q * s) + (p * s + q * c) * (p * s + q * c)
      = (p * p + q * q) * (c\<^sup>2 + s\<^sup>2)"
    by (simp add: power2_eq_square algebra_simps)
  then show ?thesis by (simp add: assms)
qed

lemma cos_sin_squares: "(cos a)\<^sup>2 + (sin a)\<^sup>2 = (1::real)"
  by (simp add: add.commute)

lemma rot_x_norm: "vdot (rot_x a v) (rot_x a v) = vdot v v"
proof -
  obtain x y z where v: "v = (x, y, z)" by (metis prod_cases3)
  have "(y * cos a - z * sin a) * (y * cos a - z * sin a)
      + (y * sin a + z * cos a) * (y * sin a + z * cos a) = y * y + z * z"
    by (rule plane_rot_norm [OF cos_sin_squares])
  then show ?thesis
    unfolding v rot_x_def vdot_def by simp
qed

lemma rot_y_norm: "vdot (rot_y a v) (rot_y a v) = vdot v v"
proof -
  obtain x y z where v: "v = (x, y, z)" by (metis prod_cases3)
  have "(z * cos a - x * sin a) * (z * cos a - x * sin a)
      + (z * sin a + x * cos a) * (z * sin a + x * cos a) = z * z + x * x"
    by (rule plane_rot_norm [OF cos_sin_squares])
  then have "(x * cos a + z * sin a) * (x * cos a + z * sin a)
      + (z * cos a - x * sin a) * (z * cos a - x * sin a) = x * x + z * z"
    by (simp add: add.commute)
  then show ?thesis
    unfolding v rot_y_def vdot_def by simp
qed

lemma rot_z_norm: "vdot (rot_z a v) (rot_z a v) = vdot v v"
proof -
  obtain x y z where v: "v = (x, y, z)" by (metis prod_cases3)
  have "(x * cos a - y * sin a) * (x * cos a - y * sin a)
      + (x * sin a + y * cos a) * (x * sin a + y * cos a) = x * x + y * y"
    by (rule plane_rot_norm [OF cos_sin_squares])
  then show ?thesis
    unfolding v rot_z_def vdot_def by simp
qed

lemma euler_norm:
  "vdot (mat_vec (np_dot33 (euler_rz g) (np_dot33 (euler_ry b) (euler_rx a))) v)
        (mat_vec (np_dot33 (euler_rz g) (np_dot33 (euler_ry b) (euler_rx a))) v) = vdot v v"
  by (simp add: mat_vec_euler rot_x_norm rot_y_norm rot_z_norm)

lemma dist3_vdot: "dist3 p q = sqrt (vdot (vsub p q) (vsub p q))"
  by (cases p; cases q) (simp add: dist3_def vsub_def vdot_def power2_eq_square)

lemma mat_vec_vsub: "vsub (mat_vec m p) (mat_vec m q) = mat_vec m (vsub p q)"
  by (cases m; cases p; cases q) (auto simp: mat_vec_def vsub_def vdot_def algebra_simps)

lemma vsub_rotate_about:
  "vsub (rotate_about m c p) (rotate_about m c q) = mat_vec m (vsub p q)"
  by (cases m; cases p; cases q; cases c) (auto simp: rotate_about_def mat_vec_def vsub_def vadd_def vdot_def algebra_simps)

lemma vsub_rotate_about_centre: "vsub (rotate_about m c p) c = mat_vec m (vsub p c)"
  by (cases m; cases p; cases c) (auto simp: rotate_about_def mat_vec_def vsub_def vadd_def vdot_def algebra_simps)

lemma rotate_about_rigid:
  assumes "\<And>v. vdot (mat_vec m v) (mat_vec m v) = vdot v v"
  shows "dist3 (rotate_about m c p) (rotate_about m c q) = dist3 p q"
    and "dist3 (rotate_about m c p) c = dist3 p c"
  by (simp_all add: dist3_vdot vsub_rotate_about vsub_rotate_about_centre assms)

lemma rotate_about_back:
  assumes "\<And>v. mat_vec m' (mat_vec m v) = v"
  shows "rotate_about m' c (rotate_about m c p) = p"
proof -
  have "rotate_about m' c (rotate_about m c p) = vadd (mat_vec m' (vsub (rotate_about m c p) c)) c"
    by (simp add: rotate_about_def)
  also have "\<dots> = vadd (vsub p c) c"
    by (simp add: vsub_rotate_about_centre assms)
  also have "\<dots> = p"
    by (cases p; cases c) (simp add: vadd_def vsub_def)
  finally show ?thesis .
qed


section \<open>Unbound names\<close>

lemma load_global_angle: "load_global ''angle'' = Inl (NameError ''angle'')"
  by (simp add: load_global_def module_globals_def)

lemma load_global_rotation_matrix:
  "load_global ''_rotation_matrix'' = Inl (NameError ''_rotation_matrix'')"
  by (simp add: load_global_def module_globals_def)

lemma get_rot_axis_angle_Inl: "\<exists>e. fst (get_rot_axis_angle R seed g) = Inl e"
  by (auto simp: get_rot_axis_angle_def load_global_angle Let_def split: sum.splits prod.splits option.splits)

lemma get_rot_axis_angle_seeded:
  "0 \<le> s \<Longrightarrow> s < 2 ^ 32 \<Longrightarrow> fst (get_rot_axis_angle R (Some s) g) = Inl (NameError ''angle'')"
  by (simp add: get_rot_axis_angle_def np_random_seed_def load_global_angle Let_def split: prod.splits)

section \<open>The sampler\<close>

text \<open>
  Claim C1 says that \<open>get_rot_axis_angle\<close> succeeds for every optional seed and returns a
  unit axis with an angle \<open>2 pi u3\<close>. The function returns \<open>axis, angle\<close> without ever
  binding \<open>angle\<close> (the assignment \<open>angle = 2 * np.pi * np.random.rand()\<close> stands at the
  end of \<open>rot_mat\<close>): for every seed and every generator the call ends in an exception,
  and for no seed and for the seed 42 the exception is NameError on \<open>angle\<close>.
\<close>

theorem get_rot_axis_angle_raises:
  "(\<exists>e. fst (get_rot_axis_angle R seed g) = Inl e) \<and>
   fst (get_rot_axis_angle R None g) = Inl (NameError ''angle'') \<and>
   fst (get_rot_axis_angle R (Some 42) g) = Inl (NameError ''angle'')"
proof (intro conjI)
  show "\<exists>e. fst (get_rot_axis_angle R seed g) = Inl e"
    by (rule get_rot_axis_angle_Inl)
  show "fst (get_rot_axis_angle R None g) = Inl (NameError ''angle'')"
    by (simp add: get_rot_axis_angle_def load_global_angle Let_def split: prod.splits)
  show "fst (get_rot_axis_angle R (Some 42) g) = Inl (NameError ''angle'')"
    by (rule get_rot_axis_angle_seeded) simp_all
qed

text \<open>
  Claim C7 says that two calls of \<open>get_rot_axis_angle\<close> with the same seed both succeed
  and return the same pair. Both calls end in an exception, for every seed; with the seed
  42 both raise NameError on \<open>angle\<close>. The second call starts from the generator state
  the first one left.
\<close>

theorem get_rot_axis_angle_twice_raises:
  "(\<exists>e1 e2. fst (get_rot_axis_angle R (Some s) g) = Inl e1 \<and>
      fst (get_rot_axis_angle R (Some s) (snd (get_rot_axis_angle R (Some s) g))) = Inl e2) \<and>
   fst (get_rot_axis_angle R (Some 42) g) = Inl (NameError ''angle'') \<and>
   fst (get_rot_axis_angle R (Some 42) (snd (get_rot_axis_angle R (Some 42) g))) = Inl (NameError ''angle'')"
proof (intro conjI)
  obtain e1 where e1: "fst (get_rot_axis_angle R (Some s) g) = Inl e1"
    using get_rot_axis_angle_Inl [of R "Some s" g] by blast
  obtain e2 where
    e2: "fst (get_rot_axis_angle R (Some s) (snd (get_rot_axis_angle R (Some s) g))) = Inl e2"
    using get_rot_axis_angle_Inl [of R "Some s" "snd (get_rot_axis_angle R (Some s) g)"] by blast
  from e1 e2 show "\<exists>e1 e2. fst (get_rot_axis_angle R (Some s) g) = Inl e1 \<and>
      fst (get_rot_axis_angle R (Some s) (snd (get_rot_axis_angle R (Some s) g))) = Inl e2"
    by blast
  show "fst (get_rot_axis_angle R (Some 42) g) = Inl (NameError ''angle'')"
    by (rule get_rot_axis_angle_seeded) simp_all
  show "fst (get_rot_axis_angle R (Some 42) (snd (get_rot_axis_angle R (Some 42) g))) = Inl (NameError ''angle'')"
    by (rule get_rot_axis_angle_seeded) simp_all
qed

lemma rot_mat_NameError: "fst (rot_mat R acc db m sel g) = Inl (NameError ''_rotation_matrix'')"
  by (simp add: rot_mat_def load_global_rotation_matrix)

section \<open>The explicit-matrix rotation\<close>

text \<open>
  Claim C2 says that the explicit-matrix rotation without a centre from the caller
  returns \<open>R (p - c) + c\<close> for every row p, c the centroid of the rows.
  \<open>rotation_matrix\<close> centres on \<open>np.mean(xyz)\<close>, the mean of all the entries: the single
  row \<open>(3, 0, 0)\<close> under the quarter turn about z becomes \<open>(2, 3, 0)\<close>, where the rotation
  about the centroid leaves it at \<open>(3, 0, 0)\<close>. The database transform \<open>rot_mat\<close> calls
  the unbound name \<open>_rotation_matrix\<close> and raises NameError on every input.
\<close>

theorem rotation_matrix_scalar_mean:
  "rotation_matrix (Rows [(3, 0, 0)]) ((0, -1, 0), (1, 0, 0), (0, 0, 1)) True = Inr (Rows [(2, 3, 0)]) \<and>
   map (rotate_about ((0, -1, 0), (1, 0, 0), (0, 0, 1)) (centroid [(3, 0, 0)])) [(3, 0, 0)] = [(3, 0, 0)] \<and>
   fst (rot_mat R acc db m sel g) = Inl (NameError ''_rotation_matrix'')"
proof (intro conjI)
  show "rotation_matrix (Rows [(3, 0, 0)]) ((0, -1, 0), (1, 0, 0), (0, 0, 1)) True = Inr (Rows [(2, 3, 0)])"
    by (simp add: rotation_matrix_def np_mean_def np_sub_scalar_def np_add_scalar_def dot_T_Rows
        mat_vec_def vdot_def vsub_def vadd_def)
  show "map (rotate_about ((0, -1, 0), (1, 0, 0), (0, 0, 1)) (centroid [(3, 0, 0)])) [(3, 0, 0)] = [(3, 0, 0)]"
    by (simp add: rotate_about_def centroid_def mat_vec_def vdot_def vsub_def vadd_def)
  show "fst (rot_mat R acc db m sel g) = Inl (NameError ''_rotation_matrix'')"
    by (rule rot_mat_NameError)
qed

section \<open>The axis-angle kernel\<close>

text \<open>
  Claim C4: for a point set with at least one row, an axis \<open>(ux, uy, uz)\<close> and an angle,
  \<open>rot_xyz_around_axis\<close> returns, row by row and in the order of the input,
  \<open>R (p - c) + c\<close>, where R is the matrix of Rodrigues' formula with the cosine and the
  sine of the angle, and c is the centre the caller gave or else the centroid of the
  input. The axis need not have unit length for this.
\<close>

theorem rot_xyz_around_axis_rodrigues:
  assumes "ps \<noteq> []"
  shows "rot_xyz_around_axis (Rows ps) (ux, uy, uz) angle center =
     Inr (Rows (map (rotate_about
        ((cos angle + ux\<^sup>2 * (1 - cos angle), ux * uy * (1 - cos angle) - uz * sin angle,
            ux * uz * (1 - cos angle) + uy * sin angle),
         (uy * ux * (1 - cos angle) + uz * sin angle, cos angle + uy\<^sup>2 * (1 - cos angle),
            uy * uz * (1 - cos angle) - ux * sin angle),
         (uz * ux * (1 - cos angle) - uy * sin angle, uz * uy * (1 - cos angle) + ux * sin angle,
            cos angle + uz\<^sup>2 * (1 - cos angle)))
        (case center of None \<Rightarrow> centroid ps | Some c \<Rightarrow> c)) ps))"
  using rot_xyz_around_axis_Rows [OF assms, of "(ux, uy, uz)" angle center]
  by (simp add: rodrigues_def Let_def)

theorem rot_xyz_around_axis_rodrigues_witness:
  "[(1, 0, 0), (3, 0, 0)] \<noteq> ([] :: vec3 list) \<and>
   rot_xyz_around_axis (Rows [(1, 0, 0), (3, 0, 0)]) (0, 0, 1) (pi / 2) None
     = Inr (Rows [(2, -1, 0), (2, 1, 0)])"
proof -
  have ne: "[(1, 0, 0), (3, 0, 0)] \<noteq> ([] :: vec3 list)" by simp
  show ?thesis
    using rot_xyz_around_axis_rodrigues [OF ne, of 0 0 1 "pi / 2" None]
    by (simp add: rotate_about_def centroid_def mat_vec_def vdot_def vsub_def vadd_def)
qed

section \<open>The Euler kernel\<close>

text \<open>
  Claim C5: for a point set with at least one row, \<open>_rotation_euler\<close> rotates every row
  about the centroid of the input, first about x by alpha, then about y by beta, then
  about z by gamma, which is the product \<open>Rz(gamma) Ry(beta) Rx(alpha)\<close>. With
  \<open>alpha = pi / 2\<close>, \<open>beta = gamma = 0\<close> and centroid \<open>(0, 0, 0)\<close> a row \<open>(1, 0, 0)\<close> stays
  \<open>(1, 0, 0)\<close> and a row \<open>(0, 1, 0)\<close> becomes \<open>(0, 0, 1)\<close>.
\<close>

theorem rotation_euler_order:
  assumes "ps \<noteq> []"
  shows "rotation_euler (Rows ps) alpha beta gamma =
           Inr (Rows (map (\<lambda>p. vadd (rot_z gamma (rot_y beta (rot_x alpha (vsub p (centroid ps)))))
                                 (centroid ps)) ps)) \<and>
         (centroid ps = (0, 0, 0) \<longrightarrow>
            (\<exists>out. rotation_euler (Rows ps) (pi / 2) 0 0 = Inr (Rows out) \<and> length out = length ps \<and>
               (\<forall>i < length ps. (ps ! i = (1, 0, 0) \<longrightarrow> out ! i = (1, 0, 0)) \<and>
                                 (ps ! i = (0, 1, 0) \<longrightarrow> out ! i = (0, 0, 1)))))"
proof -
  have gen: "rotation_euler (Rows ps) a b g =
           Inr (Rows (map (\<lambda>p. vadd (rot_z g (rot_y b (rot_x a (vsub p (centroid ps)))))
                                 (centroid ps)) ps))" for a b g
    using rotation_euler_Rows [OF assms, of a b g]
    by (simp add: rotate_about_def mat_vec_euler)
  have part: "\<exists>out. rotation_euler (Rows ps) (pi / 2) 0 0 = Inr (Rows out) \<and> length out = length ps \<and>
               (\<forall>i < length ps. (ps ! i = (1, 0, 0) \<longrightarrow> out ! i = (1, 0, 0)) \<and>
                                 (ps ! i = (0, 1, 0) \<longrightarrow> out ! i = (0, 0, 1)))"
    if c0: "centroid ps = (0, 0, 0)"
  proof (intro exI conjI)
    show "rotation_euler (Rows ps) (pi / 2) 0 0 =
       Inr (Rows (map (\<lambda>p. vadd (rot_z 0 (rot_y 0 (rot_x (pi / 2) (vsub p (centroid ps)))))
                                 (centroid ps)) ps))"
      by (rule gen)
    show "length (map (\<lambda>p. vadd (rot_z 0 (rot_y 0 (rot_x (pi / 2) (vsub p (centroid ps)))))
                                 (centroid ps)) ps) = length ps"
      by simp
    show "\<forall>i < length ps.
        (ps ! i = (1, 0, 0) \<longrightarrow>
           map (\<lambda>p. vadd (rot_z 0 (rot_y 0 (rot_x (pi / 2) (vsub p (centroid ps))))) (centroid ps)) ps ! i
             = (1, 0, 0)) \<and>
        (ps ! i = (0, 1, 0) \<longrightarrow>
           map (\<lambda>p. vadd (rot_z 0 (rot_y 0 (rot_x (pi / 2) (vsub p (centroid ps))))) (centroid ps)) ps ! i
             = (0, 0, 1))"
      by (simp add: c0 rot_x_def rot_y_def rot_z_def vsub_def vadd_def)
  qed
  from gen part show ?thesis by blast
qed

theorem rotation_euler_order_witness:
  "[(1, 0, 0), (0, 1, 0), (-1, -1, 0)] \<noteq> ([] :: vec3 list) \<and>
   centroid [(1, 0, 0), (0, 1, 0), (-1, -1, 0)] = (0, 0, 0) \<and>
   rotation_euler (Rows [(1, 0, 0), (0, 1, 0), (-1, -1, 0)]) (pi / 2) 0 0
     = Inr (Rows [(1, 0, 0), (0, 0, 1), (-1, 0, -1)])"
proof -
  have ne: "[(1, 0, 0), (0, 1, 0), (-1, -1, 0)] \<noteq> ([] :: vec3 list)" by simp
  have c0: "centroid [(1, 0, 0), (0, 1, 0), (-1, -1, 0)] = (0, 0, 0)"
    by (simp add: centroid_def)
  show ?thesis
    using rotation_euler_order [OF ne, of "pi / 2" 0 0] c0
    by (simp add: rot_x_def rot_y_def rot_z_def vsub_def vadd_def)
qed


section \<open>Rigidity, inverse and centroid\<close>

text \<open>
  Claim C6: over the real numbers, for a point set with at least one row, the axis-angle
  kernel with an axis of unit length (about the centre given, or else the centroid) and
  the Euler kernel (about the centroid) both return a point set of the same length in
  which the Euclidean distance of any two rows, and the distance of every row from the
  rotation centre, are those of the input.
\<close>

theorem rotation_kernels_rigid:
  assumes "ps \<noteq> []" and "unit_axis u"
  shows "(\<exists>out. rot_xyz_around_axis (Rows ps) u angle center = Inr (Rows out) \<and>
            length out = length ps \<and>
            (\<forall>i < length ps. \<forall>j < length ps. dist3 (out ! i) (out ! j) = dist3 (ps ! i) (ps ! j)) \<and>
            (\<forall>i < length ps.
               dist3 (out ! i) (case center of None \<Rightarrow> centroid ps | Some c \<Rightarrow> c)
                 = dist3 (ps ! i) (case center of None \<Rightarrow> centroid ps | Some c \<Rightarrow> c))) \<and>
         (\<exists>out. rotation_euler (Rows ps) alpha beta gamma = Inr (Rows out) \<and>
            length out = length ps \<and>
            (\<forall>i < length ps. \<forall>j < length ps. dist3 (out ! i) (out ! j) = dist3 (ps ! i) (ps ! j)) \<and>
            (\<forall>i < length ps. dist3 (out ! i) (centroid ps) = dist3 (ps ! i) (centroid ps)))"
proof (intro conjI)
  let ?c = "case center of None \<Rightarrow> centroid ps | Some c \<Rightarrow> c"
  let ?out = "map (rotate_about (rodrigues u angle) ?c) ps"
  have iso: "vdot (mat_vec (rodrigues u angle) v) (mat_vec (rodrigues u angle) v) = vdot v v" for v
    by (rule rodrigues_norm [OF assms(2)])
  show "\<exists>out. rot_xyz_around_axis (Rows ps) u angle center = Inr (Rows out) \<and>
            length out = length ps \<and>
            (\<forall>i < length ps. \<forall>j < length ps. dist3 (out ! i) (out ! j) = dist3 (ps ! i) (ps ! j)) \<and>
            (\<forall>i < length ps. dist3 (out ! i) ?c = dist3 (ps ! i) ?c)"
  proof (intro exI [of _ ?out] conjI)
    show "rot_xyz_around_axis (Rows ps) u angle center = Inr (Rows ?out)"
      by (rule rot_xyz_around_axis_Rows [OF assms(1)])
    show "length ?out = length ps" by simp
    show "\<forall>i < length ps. \<forall>j < length ps. dist3 (?out ! i) (?out ! j) = dist3 (ps ! i) (ps ! j)"
      by (simp add: rotate_about_rigid(1) [OF iso])
    show "\<forall>i < length ps. dist3 (?out ! i) ?c = dist3 (ps ! i) ?c"
      by (simp add: rotate_about_rigid(2) [OF iso])
  qed
next
  let ?m = "np_dot33 (euler_rz gamma) (np_dot33 (euler_ry beta) (euler_rx alpha))"
  let ?out = "map (rotate_about ?m (centroid ps)) ps"
  have iso: "vdot (mat_vec ?m v) (mat_vec ?m v) = vdot v v" for v
    by (rule euler_norm)
  show "\<exists>out. rotation_euler (Rows ps) alpha beta gamma = Inr (Rows out) \<and>
            length out = length ps \<and>
            (\<forall>i < length ps. \<forall>j < length ps. dist3 (out ! i) (out ! j) = dist3 (ps ! i) (ps ! j)) \<and>
            (\<forall>i < length ps. dist3 (out ! i) (centroid ps) = dist3 (ps ! i) (centroid ps))"
  proof (intro exI [of _ ?out] conjI)
    show "rotation_euler (Rows ps) alpha beta gamma = Inr (Rows ?out)"
      by (rule rotation_euler_Rows [OF assms(1)])
    show "length ?out = length ps" by simp
    show "\<forall>i < length ps. \<forall>j < length ps. dist3 (?out ! i) (?out ! j) = dist3 (ps ! i) (ps ! j)"
      by (simp add: rotate_about_rigid(1) [OF iso])
    show "\<forall>i < length ps. dist3 (?out ! i) (centroid ps) = dist3 (ps ! i) (centroid ps)"
      by (simp add: rotate_about_rigid(2) [OF iso])
  qed
qed

text \<open>
  Claim C8: over the real numbers, for a point set P with at least one row, an axis u of
  unit length, an angle a and a centre C, the axis-angle kernel applied with \<open>(u, a)\<close>
  about C and then with \<open>(u, - a)\<close> about C returns P.
\<close>

theorem rot_xyz_around_axis_round_trip:
  assumes "ps \<noteq> []" and "unit_axis u"
  shows "\<exists>mid. rot_xyz_around_axis (Rows ps) u angle (Some c) = Inr mid \<and>
               rot_xyz_around_axis mid u (- angle) (Some c) = Inr (Rows ps)"
proof (intro exI conjI)
  let ?mid = "map (rotate_about (rodrigues u angle) c) ps"
  show "rot_xyz_around_axis (Rows ps) u angle (Some c) = Inr (Rows ?mid)"
    using rot_xyz_around_axis_Rows [OF assms(1), of u angle "Some c"] by simp
  have ne: "?mid \<noteq> []" using assms(1) by simp
  have inv: "mat_vec (rodrigues u (- angle)) (mat_vec (rodrigues u angle) v) = v" for v
    by (rule rodrigues_back [OF assms(2)])
  have "rot_xyz_around_axis (Rows ?mid) u (- angle) (Some c)
      = Inr (Rows (map (rotate_about (rodrigues u (- angle)) c) ?mid))"
    using rot_xyz_around_axis_Rows [OF ne, of u "- angle" "Some c"] by simp
  also have "map (rotate_about (rodrigues u (- angle)) c) ?mid = ps"
    by (simp add: comp_def rotate_about_back [OF inv])
  finally show "rot_xyz_around_axis (Rows ?mid) u (- angle) (Some c) = Inr (Rows ps)" .
qed

text \<open>
  Claim C10: over the real numbers, for a point set with at least one row, the
  axis-angle kernel without a centre from the caller and the Euler kernel each return a
  point set of the same length whose centroid is the centroid of the input. The axis
  need not have unit length for this.
\<close>

theorem rotation_kernels_keep_centroid:
  assumes "ps \<noteq> []"
  shows "(\<exists>out. rot_xyz_around_axis (Rows ps) u angle None = Inr (Rows out) \<and>
            length out = length ps \<and> centroid out = centroid ps) \<and>
         (\<exists>out. rotation_euler (Rows ps) alpha beta gamma = Inr (Rows out) \<and>
            length out = length ps \<and> centroid out = centroid ps)"
proof (intro conjI)
  show "\<exists>out. rot_xyz_around_axis (Rows ps) u angle None = Inr (Rows out) \<and>
            length out = length ps \<and> centroid out = centroid ps"
    using rot_xyz_around_axis_Rows [OF assms, of u angle None] centroid_rotate_about [OF assms]
    by simp
  show "\<exists>out. rotation_euler (Rows ps) alpha beta gamma = Inr (Rows out) \<and>
            length out = length ps \<and> centroid out = centroid ps"
    using rotation_euler_Rows [OF assms, of alpha beta gamma] centroid_rotate_about [OF assms]
    by simp
qed


section \<open>The rotations on two points\<close>

text \<open>
  The point set \<open>(1, 0, 0), (3, 0, 0)\<close> under a quarter turn about the z axis.
\<close>

lemma rot_z_quarter_example:
  "rot_xyz_around_axis (Rows [(1, 0, 0), (3, 0, 0)]) (0, 0, 1) (pi / 2) None
     = Inr (Rows [(2, -1, 0), (2, 1, 0)])"
proof -
  have ne: "[(1, 0, 0), (3, 0, 0)] \<noteq> ([] :: vec3 list)" by simp
  show ?thesis
    using rot_xyz_around_axis_Rows [OF ne, of "(0, 0, 1)" "pi / 2" None]
    by (simp add: rodrigues_def rotate_about_def centroid_def mat_vec_def vdot_def vsub_def vadd_def)
qed

theorem rotation_kernels_rigid_witness:
  "[(1, 0, 0), (3, 0, 0)] \<noteq> ([] :: vec3 list) \<and> unit_axis (0, 0, 1) \<and>
   (\<exists>out. rot_xyz_around_axis (Rows [(1, 0, 0), (3, 0, 0)]) (0, 0, 1) (pi / 2) None = Inr (Rows out) \<and>
      out = [(2, -1, 0), (2, 1, 0)] \<and>
      dist3 (out ! 0) (out ! 1) = dist3 (1, 0, 0) (3, 0, 0) \<and>
      dist3 (out ! 1) (centroid [(1, 0, 0), (3, 0, 0)]) = dist3 (3, 0, 0) (centroid [(1, 0, 0), (3, 0, 0)])) \<and>
   (\<exists>out. rotation_euler (Rows [(1, 0, 0), (3, 0, 0)]) (pi / 2) 0 0 = Inr (Rows out) \<and>
      dist3 (out ! 0) (out ! 1) = dist3 (1, 0, 0) (3, 0, 0))"
proof -
  let ?ps = "[(1, 0, 0), (3, 0, 0)] :: vec3 list"
  have ne: "?ps \<noteq> []" by simp
  have ua: "unit_axis (0, 0, 1)" by (simp add: unit_axis_def)
  note r = rotation_kernels_rigid [OF ne ua, where angle = "pi / 2" and center = None
      and alpha = "pi / 2" and beta = 0 and gamma = 0]
  from r [THEN conjunct1] obtain out where
    o1: "rot_xyz_around_axis (Rows ?ps) (0, 0, 1) (pi / 2) None = Inr (Rows out)" and
    o2: "\<forall>i < length ?ps. \<forall>j < length ?ps. dist3 (out ! i) (out ! j) = dist3 (?ps ! i) (?ps ! j)" and
    o3: "\<forall>i < length ?ps. dist3 (out ! i) (case None of None \<Rightarrow> centroid ?ps | Some c \<Rightarrow> c)
           = dist3 (?ps ! i) (case None of None \<Rightarrow> centroid ?ps | Some c \<Rightarrow> c)"
    by blast
  from o1 rot_z_quarter_example have o4: "out = [(2, -1, 0), (2, 1, 0)]" by simp
  from o2 [rule_format, of 0 1] have o5: "dist3 (out ! 0) (out ! 1) = dist3 (1, 0, 0) (3, 0, 0)"
    by simp
  from o3 [rule_format, of 1]
  have o6: "dist3 (out ! 1) (centroid ?ps) = dist3 (3, 0, 0) (centroid ?ps)"
    by simp
  from r [THEN conjunct2] obtain out' where
    e1: "rotation_euler (Rows ?ps) (pi / 2) 0 0 = Inr (Rows out')" and
    e2: "\<forall>i < length ?ps. \<forall>j < length ?ps. dist3 (out' ! i) (out' ! j) = dist3 (?ps ! i) (?ps ! j)"
    by blast
  from e2 [rule_format, of 0 1] have e3: "dist3 (out' ! 0) (out' ! 1) = dist3 (1, 0, 0) (3, 0, 0)"
    by simp
  have a: "\<exists>out. rot_xyz_around_axis (Rows ?ps) (0, 0, 1) (pi / 2) None = Inr (Rows out) \<and>
      out = [(2, -1, 0), (2, 1, 0)] \<and>
      dist3 (out ! 0) (out ! 1) = dist3 (1, 0, 0) (3, 0, 0) \<and>
      dist3 (out ! 1) (centroid ?ps) = dist3 (3, 0, 0) (centroid ?ps)"
    using o1 o4 o5 o6 by (intro exI [of _ out] conjI)
  have b: "\<exists>out. rotation_euler (Rows ?ps) (pi / 2) 0 0 = Inr (Rows out) \<and>
      dist3 (out ! 0) (out ! 1) = dist3 (1, 0, 0) (3, 0, 0)"
    using e1 e3 by (intro exI [of _ out'] conjI)
  from ne ua a b show ?thesis by (intro conjI)
qed

theorem rot_xyz_around_axis_round_trip_witness:
  "[(1, 0, 0), (3, 0, 0)] \<noteq> ([] :: vec3 list) \<and> unit_axis (0, 0, 1) \<and>
   rot_xyz_around_axis (Rows [(1, 0, 0), (3, 0, 0)]) (0, 0, 1) (pi / 2) (Some (0, 0, 0))
     = Inr (Rows [(0, 1, 0), (0, 3, 0)]) \<and>
   rot_xyz_around_axis (Rows [(0, 1, 0), (0, 3, 0)]) (0, 0, 1) (- (pi / 2)) (Some (0, 0, 0))
     = Inr (Rows [(1, 0, 0), (3, 0, 0)])"
proof -
  let ?ps = "[(1, 0, 0), (3, 0, 0)] :: vec3 list"
  have ne: "?ps \<noteq> []" by simp
  have ua: "unit_axis (0, 0, 1)" by (simp add: unit_axis_def)
  have ev: "rot_xyz_around_axis (Rows ?ps) (0, 0, 1) (pi / 2) (Some (0, 0, 0))
      = Inr (Rows [(0, 1, 0), (0, 3, 0)])"
    using rot_xyz_around_axis_Rows [OF ne, of "(0, 0, 1)" "pi / 2" "Some (0, 0, 0)"]
    by (simp add: rodrigues_def rotate_about_def mat_vec_def vdot_def vsub_def vadd_def)
  from rot_xyz_around_axis_round_trip [OF ne ua, of "pi / 2" "(0, 0, 0)"] obtain mid where
    m1: "rot_xyz_around_axis (Rows ?ps) (0, 0, 1) (pi / 2) (Some (0, 0, 0)) = Inr mid" and
    m2: "rot_xyz_around_axis mid (0, 0, 1) (- (pi / 2)) (Some (0, 0, 0)) = Inr (Rows ?ps)"
    by blast
  from m1 ev have "mid = Rows [(0, 1, 0), (0, 3, 0)]" by simp
  with m2 have
    "rot_xyz_around_axis (Rows [(0, 1, 0), (0, 3, 0)]) (0, 0, 1) (- (pi / 2)) (Some (0, 0, 0))
      = Inr (Rows ?ps)"
    by simp
  with ne ua ev show ?thesis by (intro conjI)
qed

theorem rotation_kernels_keep_centroid_witness:
  "[(1, 0, 0), (3, 0, 0)] \<noteq> ([] :: vec3 list) \<and>
   (\<exists>out. rot_xyz_around_axis (Rows [(1, 0, 0), (3, 0, 0)]) (0, 0, 1) (pi / 2) None = Inr (Rows out) \<and>
      out = [(2, -1, 0), (2, 1, 0)] \<and> centroid out = (2, 0, 0) \<and>
      centroid [(1, 0, 0), (3, 0, 0)] = (2, 0, 0)) \<and>
   (\<exists>out. rotation_euler (Rows [(1, 0, 0), (3, 0, 0)]) (pi / 2) 0 0 = Inr (Rows out) \<and>
      centroid out = (2, 0, 0))"
proof -
  let ?ps = "[(1, 0, 0), (3, 0, 0)] :: vec3 list"
  have ne: "?ps \<noteq> []" by simp
  have c: "centroid ?ps = (2, 0, 0)" by (simp add: centroid_def)
  note r = rotation_kernels_keep_centroid [OF ne, where u = "(0, 0, 1)" and angle = "pi / 2"
      and alpha = "pi / 2" and beta = 0 and gamma = 0]
  from r [THEN conjunct1] obtain out where
    o1: "rot_xyz_around_axis (Rows ?ps) (0, 0, 1) (pi / 2) None = Inr (Rows out)" and
    o2: "centroid out = centroid ?ps"
    by blast
  from o1 rot_z_quarter_example have o3: "out = [(2, -1, 0), (2, 1, 0)]" by simp
  from o2 c have o4: "centroid out = (2, 0, 0)" by simp
  from r [THEN conjunct2] obtain out' where
    e1: "rotation_euler (Rows ?ps) (pi / 2) 0 0 = Inr (Rows out')" and
    e2: "centroid out' = centroid ?ps"
    by blast
  from e2 c have e3: "centroid out' = (2, 0, 0)" by simp
  have a: "\<exists>out. rot_xyz_around_axis (Rows ?ps) (0, 0, 1) (pi / 2) None = Inr (Rows out) \<and>
      out = [(2, -1, 0), (2, 1, 0)] \<and> centroid out = (2, 0, 0) \<and> centroid ?ps = (2, 0, 0)"
    using o1 o3 o4 c by (intro exI [of _ out] conjI)
  have b: "\<exists>out. rotation_euler (Rows ?ps) (pi / 2) 0 0 = Inr (Rows out) \<and> centroid out = (2, 0, 0)"
    using e1 e3 by (intro exI [of _ out'] conjI)
  from ne a b show ?thesis by (intro conjI)
qed


section \<open>A selection without rows\<close>

lemma get_xyz_empty: "db_get acc db sel = [] \<Longrightarrow> get_xyz acc db sel = Flat0"
  by (simp add: get_xyz_def np_array_def)

lemma get_xyz_rows: "db_get acc db sel \<noteq> [] \<Longrightarrow> get_xyz acc db sel = Rows (db_get acc db sel)"
  by (simp add: get_xyz_def np_array_def)

lemma rot_xyz_around_axis_Flat0:
  "rot_xyz_around_axis Flat0 axis angle None =
     Inl (ValueError ''shapes (3,3) and (0,) not aligned: 3 (dim 1) != 0 (dim 0)'')"
  by (simp add: rot_xyz_around_axis_def Let_def np_mean0_def np_sub_def dot_T_Flat0)

lemma rotation_euler_Flat0:
  "rotation_euler Flat0 alpha beta gamma =
     Inl (ValueError ''shapes (3,3) and (0,) not aligned: 3 (dim 1) != 0 (dim 0)'')"
  by (simp add: rotation_euler_def Let_def np_mean0_def np_sub_def dot_T_Flat0)

text \<open>
  Claim C3, as amended. The claim says that a rotation transform on a selection without
  rows signals a defined empty-selection error instead of computing a nan centroid. The
  module has no such check. For every database object whose \<open>get\<close> returns no row for the
  selection, and whatever its \<open>update\<close> method is, the axis-angle and the Euler transform
  compute the mean of the empty array (nan) and then fail in \<open>np.dot\<close> with numpy's
  ValueError on the shapes \<open>(3,3)\<close> and \<open>(0,)\<close>; the failure precedes the call of
  \<open>update\<close>, so nothing is written.
\<close>

theorem rotation_on_empty_selection:
  assumes "db_get acc db sel = []"
  shows "np_mean0 (get_xyz (acc\<lparr>db_update := w\<rparr>) db sel) = None \<and>
         rot_axis (acc\<lparr>db_update := w\<rparr>) db axis angle sel =
           Inl (ValueError ''shapes (3,3) and (0,) not aligned: 3 (dim 1) != 0 (dim 0)'') \<and>
         rot_euler (acc\<lparr>db_update := w\<rparr>) db alpha beta gamma sel =
           Inl (ValueError ''shapes (3,3) and (0,) not aligned: 3 (dim 1) != 0 (dim 0)'')"
proof -
  have g: "db_get (acc\<lparr>db_update := w\<rparr>) db sel = []" using assms by simp
  have x: "get_xyz (acc\<lparr>db_update := w\<rparr>) db sel = Flat0" by (rule get_xyz_empty [OF g])
  show ?thesis
    by (simp add: x rot_axis_def rot_euler_def np_mean0_def
        rot_xyz_around_axis_Flat0 rotation_euler_Flat0)
qed

theorem rotation_on_empty_selection_witness:
  "db_get mem_accessor [(''A'', (1, 2, 3))] (\<lambda>k. k = ''B'') = [] \<and>
   rot_axis mem_accessor [(''A'', (1, 2, 3))] (0, 0, 1) (pi / 2) (\<lambda>k. k = ''B'') =
     Inl (ValueError ''shapes (3,3) and (0,) not aligned: 3 (dim 1) != 0 (dim 0)'') \<and>
   rot_euler mem_accessor [(''A'', (1, 2, 3))] (pi / 2) 0 0 (\<lambda>k. k = ''B'') =
     Inl (ValueError ''shapes (3,3) and (0,) not aligned: 3 (dim 1) != 0 (dim 0)'')"
proof -
  have g: "db_get mem_accessor [(''A'', (1, 2, 3))] (\<lambda>k. k = ''B'') = []"
    by (simp add: mem_accessor_def read_coordinates_def)
  have m: "mem_accessor\<lparr>db_update := write_coordinates\<rparr>
      = (mem_accessor :: ((string \<times> vec3) list, string \<Rightarrow> bool) accessor)"
    by (simp add: mem_accessor_def)
  from rotation_on_empty_selection [OF g, where w = write_coordinates and axis = "(0, 0, 1)"
      and angle = "pi / 2" and alpha = "pi / 2" and beta = 0 and gamma = 0]
  show ?thesis
    unfolding m using g by simp
qed

text \<open>
  On a structure with one row of chain A and the selection of chain B, neither rotation
  transform ends in the empty-selection error, and the centroid is nan.
\<close>

theorem empty_selection_error_counterexample:
  "rot_axis mem_accessor [(''A'', (1, 2, 3))] (0, 0, 1) (pi / 2) (\<lambda>k. k = ''B'') \<noteq> Inl EmptySelection \<and>
   rot_euler mem_accessor [(''A'', (1, 2, 3))] (pi / 2) 0 0 (\<lambda>k. k = ''B'') \<noteq> Inl EmptySelection \<and>
   np_mean0 (get_xyz mem_accessor [(''A'', (1, 2, 3))] (\<lambda>k. k = ''B'')) = None"
proof -
  have g: "db_get mem_accessor [(''A'', (1, 2, 3))] (\<lambda>k. k = ''B'') = []"
    by (simp add: mem_accessor_def read_coordinates_def)
  have x: "get_xyz mem_accessor [(''A'', (1, 2, 3))] (\<lambda>k. k = ''B'') = Flat0"
    by (rule get_xyz_empty [OF g])
  show ?thesis
    by (simp add: x rot_axis_def rot_euler_def np_mean0_def
        rot_xyz_around_axis_Flat0 rotation_euler_Flat0)
qed


section \<open>Reading, transforming and writing back\<close>

lemma write_rows_keys: "map fst (write_rows sel db vs) = map fst db"
  by (induction sel db vs rule: write_rows.induct) (auto split: list.splits)

lemma write_rows_length: "length (write_rows sel db vs) = length db"
  using write_rows_keys [of sel db vs] by (metis length_map)

lemma write_rows_read:
  "length vs = length (read_coordinates db sel) \<Longrightarrow> read_coordinates (write_rows sel db vs) sel = vs"
  by (induction sel db vs rule: write_rows.induct)
     (auto simp: read_coordinates_def split: list.splits)

lemma write_rows_frame:
  "i < length db \<Longrightarrow> \<not> sel (fst (db ! i)) \<Longrightarrow> write_rows sel db vs ! i = db ! i"
proof (induction sel db vs arbitrary: i rule: write_rows.induct)
  case (1 sel vs)
  then show ?case by simp
next
  case (2 sel k p db vs)
  then show ?case
    by (cases i) (auto split: list.splits)
qed

lemma write_coordinates_ok:
  assumes "length out = length (read_coordinates db sel)"
  shows "\<exists>db'. write_coordinates db (Rows out) sel = Inr db' \<and>
           map fst db' = map fst db \<and>
           read_coordinates db' sel = out \<and>
           (\<forall>i < length db. \<not> sel (fst (db ! i)) \<longrightarrow> db' ! i = db ! i)"
  using assms
  by (simp add: write_coordinates_def array_rows_def write_rows_keys write_rows_read write_rows_frame)

lemma mem_get: "db_get mem_accessor = read_coordinates"
  by (simp add: mem_accessor_def)

lemma mem_update: "update mem_accessor db xyz sel = write_coordinates db xyz sel"
  by (simp add: update_def mem_accessor_def)

lemma mem_get_xyz:
  "read_coordinates db sel \<noteq> [] \<Longrightarrow> get_xyz mem_accessor db sel = Rows (read_coordinates db sel)"
  using get_xyz_rows [of mem_accessor db sel] by (simp add: mem_get)

text \<open>
  Claim C9, as amended: on the in-memory accessor, for every selection that matches at
  least one row, \<open>translation\<close>, \<open>rot_axis\<close> and \<open>rot_euler\<close> succeed; the rows of the
  selection afterwards hold the kernel's output (for the translation, every row read
  plus the vector), as many rows as were read and in the order read; the keys of all
  rows are unchanged, and every row outside the selection is unchanged.
\<close>

theorem apply_and_commit_frame:
  assumes "read_coordinates db sel \<noteq> []"
  shows "(\<exists>db'. translation mem_accessor db vect sel = Inr db' \<and>
            map fst db' = map fst db \<and>
            read_coordinates db' sel = map (\<lambda>p. vadd p vect) (read_coordinates db sel) \<and>
            length (read_coordinates db' sel) = length (read_coordinates db sel) \<and>
            (\<forall>i < length db. \<not> sel (fst (db ! i)) \<longrightarrow> db' ! i = db ! i)) \<and>
         (\<exists>db' out. rot_axis mem_accessor db axis angle sel = Inr db' \<and>
            rot_xyz_around_axis (Rows (read_coordinates db sel)) axis angle None = Inr (Rows out) \<and>
            map fst db' = map fst db \<and>
            read_coordinates db' sel = out \<and>
            length (read_coordinates db' sel) = length (read_coordinates db sel) \<and>
            (\<forall>i < length db. \<not> sel (fst (db ! i)) \<longrightarrow> db' ! i = db ! i)) \<and>
         (\<exists>db' out. rot_euler mem_accessor db alpha beta gamma sel = Inr db' \<and>
            rotation_euler (Rows (read_coordinates db sel)) alpha beta gamma = Inr (Rows out) \<and>
            map fst db' = map fst db \<and>
            read_coordinates db' sel = out \<and>
            length (read_coordinates db' sel) = length (read_coordinates db sel) \<and>
            (\<forall>i < length db. \<not> sel (fst (db ! i)) \<longrightarrow> db' ! i = db ! i))"
proof (intro conjI)
  let ?ps = "read_coordinates db sel"
  note x = mem_get_xyz [OF assms]
  show "\<exists>db'. translation mem_accessor db vect sel = Inr db' \<and>
            map fst db' = map fst db \<and>
            read_coordinates db' sel = map (\<lambda>p. vadd p vect) ?ps \<and>
            length (read_coordinates db' sel) = length ?ps \<and>
            (\<forall>i < length db. \<not> sel (fst (db ! i)) \<longrightarrow> db' ! i = db ! i)"
  proof -
    let ?out = "map (\<lambda>p. vadd p vect) ?ps"
    have len: "length ?out = length ?ps" by simp
    have t: "translation mem_accessor db vect sel = write_coordinates db (Rows ?out) sel"
      by (simp add: translation_def x np_add_def mem_update)
    from write_coordinates_ok [OF len] obtain db' where
      "write_coordinates db (Rows ?out) sel = Inr db'" "map fst db' = map fst db"
      "read_coordinates db' sel = ?out"
      "\<forall>i < length db. \<not> sel (fst (db ! i)) \<longrightarrow> db' ! i = db ! i"
      by blast
    with t len show ?thesis by (intro exI [of _ db']) simp
  qed
  show "\<exists>db' out. rot_axis mem_accessor db axis angle sel = Inr db' \<and>
            rot_xyz_around_axis (Rows ?ps) axis angle None = Inr (Rows out) \<and>
            map fst db' = map fst db \<and>
            read_coordinates db' sel = out \<and>
            length (read_coordinates db' sel) = length ?ps \<and>
            (\<forall>i < length db. \<not> sel (fst (db ! i)) \<longrightarrow> db' ! i = db ! i)"
  proof -
    let ?out = "map (rotate_about (rodrigues axis angle) (centroid ?ps)) ?ps"
    have len: "length ?out = length ?ps" by simp
    have k: "rot_xyz_around_axis (Rows ?ps) axis angle None = Inr (Rows ?out)"
      using rot_xyz_around_axis_Rows [OF assms, of axis angle None] by simp
    have t: "rot_axis mem_accessor db axis angle sel = write_coordinates db (Rows ?out) sel"
      by (simp add: rot_axis_def x k mem_update)
    from write_coordinates_ok [OF len] obtain db' where
      "write_coordinates db (Rows ?out) sel = Inr db'" "map fst db' = map fst db"
      "read_coordinates db' sel = ?out"
      "\<forall>i < length db. \<not> sel (fst (db ! i)) \<longrightarrow> db' ! i = db ! i"
      by blast
    with t k len show ?thesis by (intro exI [of _ db'] exI [of _ ?out]) simp
  qed
  show "\<exists>db' out. rot_euler mem_accessor db alpha beta gamma sel = Inr db' \<and>
            rotation_euler (Rows ?ps) alpha beta gamma = Inr (Rows out) \<and>
            map fst db' = map fst db \<and>
            read_coordinates db' sel = out \<and>
            length (read_coordinates db' sel) = length ?ps \<and>
            (\<forall>i < length db. \<not> sel (fst (db ! i)) \<longrightarrow> db' ! i = db ! i)"
  proof -
    let ?out = "map (rotate_about (np_dot33 (euler_rz gamma) (np_dot33 (euler_ry beta) (euler_rx alpha)))
                  (centroid ?ps)) ?ps"
    have len: "length ?out = length ?ps" by simp
    have k: "rotation_euler (Rows ?ps) alpha beta gamma = Inr (Rows ?out)"
      by (rule rotation_euler_Rows [OF assms])
    have t: "rot_euler mem_accessor db alpha beta gamma sel = write_coordinates db (Rows ?out) sel"
      by (simp add: rot_euler_def x k mem_update)
    from write_coordinates_ok [OF len] obtain db' where
      "write_coordinates db (Rows ?out) sel = Inr db'" "map fst db' = map fst db"
      "read_coordinates db' sel = ?out"
      "\<forall>i < length db. \<not> sel (fst (db ! i)) \<longrightarrow> db' ! i = db ! i"
      by blast
    with t k len show ?thesis by (intro exI [of _ db'] exI [of _ ?out]) simp
  qed
qed

theorem apply_and_commit_frame_witness:
  "read_coordinates [(''A'', (1, 2, 3)), (''B'', (4, 5, 6)), (''A'', (7, 8, 9))] (\<lambda>k. k = ''A'') \<noteq> [] \<and>
   translation mem_accessor [(''A'', (1, 2, 3)), (''B'', (4, 5, 6)), (''A'', (7, 8, 9))] (1, 1, 1)
       (\<lambda>k. k = ''A'')
     = Inr [(''A'', (2, 3, 4)), (''B'', (4, 5, 6)), (''A'', (8, 9, 10))] \<and>
   (\<exists>db'. rot_axis mem_accessor [(''A'', (1, 2, 3)), (''B'', (4, 5, 6)), (''A'', (7, 8, 9))]
             (0, 0, 1) (pi / 2) (\<lambda>k. k = ''A'') = Inr db' \<and>
      length (read_coordinates db' (\<lambda>k. k = ''A'')) = 2 \<and> db' ! 1 = (''B'', (4, 5, 6))) \<and>
   (\<exists>db'. rot_euler mem_accessor [(''A'', (1, 2, 3)), (''B'', (4, 5, 6)), (''A'', (7, 8, 9))]
             (pi / 2) 0 0 (\<lambda>k. k = ''A'') = Inr db' \<and>
      length (read_coordinates db' (\<lambda>k. k = ''A'')) = 2 \<and> db' ! 1 = (''B'', (4, 5, 6)))"
proof -
  let ?db = "[(''A'', (1, 2, 3)), (''B'', (4, 5, 6)), (''A'', (7, 8, 9))] :: (string \<times> vec3) list"
  let ?sel = "\<lambda>k. k = ''A''"
  have rd: "read_coordinates ?db ?sel = [(1, 2, 3), (7, 8, 9)]"
    by (simp add: read_coordinates_def)
  have ne: "read_coordinates ?db ?sel \<noteq> []" by (simp add: rd)
  note r = apply_and_commit_frame [OF ne, where vect = "(1, 1, 1)" and axis = "(0, 0, 1)"
      and angle = "pi / 2" and alpha = "pi / 2" and beta = 0 and gamma = 0]
  from r [THEN conjunct1] obtain d0 where
    t1: "translation mem_accessor ?db (1, 1, 1) ?sel = Inr d0" and
    t2: "map fst d0 = map fst ?db" and
    t3: "read_coordinates d0 ?sel = map (\<lambda>p. vadd p (1, 1, 1)) (read_coordinates ?db ?sel)"
    by blast
  have ev: "translation mem_accessor ?db (1, 1, 1) ?sel
      = Inr [(''A'', (2, 3, 4)), (''B'', (4, 5, 6)), (''A'', (8, 9, 10))]"
    by (simp add: translation_def get_xyz_def np_array_def mem_accessor_def rd np_add_def
        update_def write_coordinates_def array_rows_def vadd_def)
  from r [THEN conjunct2, THEN conjunct1] obtain d1 where
    a1: "rot_axis mem_accessor ?db (0, 0, 1) (pi / 2) ?sel = Inr d1" and
    a2: "length (read_coordinates d1 ?sel) = length (read_coordinates ?db ?sel)" and
    a3: "\<forall>i < length ?db. \<not> ?sel (fst (?db ! i)) \<longrightarrow> d1 ! i = ?db ! i"
    by blast
  from a3 [rule_format, of 1] have a4: "d1 ! 1 = (''B'', (4, 5, 6))" by simp
  from a2 rd have a5: "length (read_coordinates d1 ?sel) = 2" by simp
  from r [THEN conjunct2, THEN conjunct2] obtain d2 where
    e1: "rot_euler mem_accessor ?db (pi / 2) 0 0 ?sel = Inr d2" and
    e2: "length (read_coordinates d2 ?sel) = length (read_coordinates ?db ?sel)" and
    e3: "\<forall>i < length ?db. \<not> ?sel (fst (?db ! i)) \<longrightarrow> d2 ! i = ?db ! i"
    by blast
  from e3 [rule_format, of 1] have e4: "d2 ! 1 = (''B'', (4, 5, 6))" by simp
  from e2 rd have e5: "length (read_coordinates d2 ?sel) = 2" by simp
  have a: "\<exists>db'. rot_axis mem_accessor ?db (0, 0, 1) (pi / 2) ?sel = Inr db' \<and>
      length (read_coordinates db' ?sel) = 2 \<and> db' ! 1 = (''B'', (4, 5, 6))"
    using a1 a5 a4 by (intro exI [of _ d1] conjI)
  have b: "\<exists>db'. rot_euler mem_accessor ?db (pi / 2) 0 0 ?sel = Inr db' \<and>
      length (read_coordinates db' ?sel) = 2 \<and> db' ! 1 = (''B'', (4, 5, 6))"
    using e1 e5 e4 by (intro exI [of _ d2] conjI)
  from ne ev a b show ?thesis by (intro conjI)
qed

text \<open>
  The claim as stated also covers a selection without rows and the matrix rotation. On
  a selection without rows \<open>translation\<close> fails in \<open>xyz += vect\<close>, since the shapes
  \<open>(0,)\<close> and \<open>(3,)\<close> do not broadcast, and writes nothing; \<open>rot_mat\<close> reads one row and
  raises NameError before the update.
\<close>

theorem apply_and_commit_counterexample:
  "read_coordinates [(''A'', (1, 2, 3))] (\<lambda>k. k = ''B'') = [] \<and>
   translation mem_accessor [(''A'', (1, 2, 3))] (1, 1, 1) (\<lambda>k. k = ''B'')
     = Inl (ValueError ''operands could not be broadcast together with shapes (0,) (3,)'') \<and>
   read_coordinates [(''A'', (1, 2, 3))] (\<lambda>k. k = ''A'') = [(1, 2, 3)] \<and>
   fst (rot_mat \<lparr>seed_state = (\<lambda>s. s), rand = (\<lambda>g. (0, g))\<rparr> mem_accessor [(''A'', (1, 2, 3))]
          ((1, 0, 0), (0, 1, 0), (0, 0, 1)) (\<lambda>k. k = ''A'') 0)
     = Inl (NameError ''_rotation_matrix'')"
  by (simp add: read_coordinates_def translation_def get_xyz_def np_array_def mem_accessor_def
      np_add_def rot_mat_NameError)

end
